theory Spec2Isabelle
  imports Complex_Main "HOL-Library.AList"
begin

section \<open>Python values and string primitives\<close>

text \<open>
  The module pynputter.py turns a line-oriented macro text into a list of instructions
  (Python lists such as \<^verbatim>\<open>['print', 'hello', 5]\<close>), expands them over the rows of a data
  table and executes the resulting commands through pyautogui.

  A string is a list of characters with code points below 256 (Latin-1): the character
  \<open>CHR n\<close> stands for the code point \<open>n\<close>. Every exception the Python code can raise in the
  modelled functions is a value of type \<open>error\<close>; a function that can raise returns
  \<open>error + 'a\<close> with \<open>Inl\<close> for the exception.
\<close>

datatype error = IndexError | TypeError | ValueError | KeyError | OverflowError

text \<open>
  A Python float is a binary64 value: a finite one is given by the rational it denotes,
  and there are the two infinities and not-a-number.
\<close>

datatype pyfloat = Finite rat | PosInf | NegInf | NaN

text \<open>A number as \<^verbatim>\<open>clean_number\<close> returns it: a Python int, or a Python float.\<close>

datatype number = IntNum int | FloatNum pyfloat

text \<open>The values that occur as elements of an instruction list.\<close>

datatype pyval = Str string | StrList "string list" | Num number | NoneVal

type_synonym instruction = "pyval list"

text \<open>A record of the data table is a dict from header to cell; a dict keeps insertion order.\<close>

type_synonym data_record = "(string \<times> string) list"

type_synonym data_set = "(string \<times> data_record) list"

text \<open>
  \<^verbatim>\<open>str.isdigit\<close> accepts the decimal digits and the superscript digits two, three and
  one (U+00B2, U+00B3, U+00B9); \<^verbatim>\<open>int\<close> and \<^verbatim>\<open>float\<close> read decimal digits only.
\<close>

definition isdecimal :: "char \<Rightarrow> bool" where
  "isdecimal c = (c \<in> set ''0123456789'')"

definition isdigit :: "char \<Rightarrow> bool" where
  "isdigit c = (isdecimal c \<or> c \<in> set [CHR 0xB2, CHR 0xB3, CHR 0xB9])"

text \<open>The whitespace of \<^verbatim>\<open>str.strip\<close> and \<^verbatim>\<open>str.isspace\<close>.\<close>

definition isspace :: "char \<Rightarrow> bool" where
  "isspace c = (c \<in> set [CHR 0x09, CHR 0x0A, CHR 0x0B, CHR 0x0C, CHR 0x0D,
                           CHR 0x1C, CHR 0x1D, CHR 0x1E, CHR 0x1F, CHR 0x20,
                           CHR 0x85, CHR 0xA0])"

text \<open>
  \<^verbatim>\<open>str.lower\<close>: the letters A to Z, and the capital letters U+00C0 to U+00DE other than
  the multiplication sign U+00D7, move up by 32.
\<close>

definition lower_char :: "char \<Rightarrow> char" where
  "lower_char c =
     (case map_of
             (zip (''ABCDEFGHIJKLMNOPQRSTUVWXYZ'' @
                   [CHR 0xC0, CHR 0xC1, CHR 0xC2, CHR 0xC3, CHR 0xC4, CHR 0xC5, CHR 0xC6,
                    CHR 0xC7, CHR 0xC8, CHR 0xC9, CHR 0xCA, CHR 0xCB, CHR 0xCC, CHR 0xCD,
                    CHR 0xCE, CHR 0xCF, CHR 0xD0, CHR 0xD1, CHR 0xD2, CHR 0xD3, CHR 0xD4,
                    CHR 0xD5, CHR 0xD6, CHR 0xD8, CHR 0xD9, CHR 0xDA, CHR 0xDB, CHR 0xDC,
                    CHR 0xDD, CHR 0xDE])
                  (''abcdefghijklmnopqrstuvwxyz'' @
                   [CHR 0xE0, CHR 0xE1, CHR 0xE2, CHR 0xE3, CHR 0xE4, CHR 0xE5, CHR 0xE6,
                    CHR 0xE7, CHR 0xE8, CHR 0xE9, CHR 0xEA, CHR 0xEB, CHR 0xEC, CHR 0xED,
                    CHR 0xEE, CHR 0xEF, CHR 0xF0, CHR 0xF1, CHR 0xF2, CHR 0xF3, CHR 0xF4,
                    CHR 0xF5, CHR 0xF6, CHR 0xF8, CHR 0xF9, CHR 0xFA, CHR 0xFB, CHR 0xFC,
                    CHR 0xFD, CHR 0xFE])) c of
        None \<Rightarrow> c
      | Some d \<Rightarrow> d)"

definition lower :: "string \<Rightarrow> string" where
  "lower s = map lower_char s"

definition strip :: "string \<Rightarrow> string" where
  "strip s = rev (dropWhile isspace (rev (dropWhile isspace s)))"

text \<open>\<^verbatim>\<open>s.replace(c, '')\<close> for a single character \<open>c\<close>.\<close>

definition replace_char :: "string \<Rightarrow> char \<Rightarrow> string" where
  "replace_char s c = filter (\<lambda>x. x \<noteq> c) s"

text \<open>\<^verbatim>\<open>s.split(c)\<close> for a single character \<open>c\<close>: always at least one field.\<close>

fun split_char :: "char \<Rightarrow> string \<Rightarrow> string list" where
  "split_char sep [] = [[]]"
| "split_char sep (c # cs) =
     (if c = sep then [] # split_char sep cs
      else (case split_char sep cs of
              [] \<Rightarrow> [[c]]
            | f # fs \<Rightarrow> (c # f) # fs))"

text \<open>\<^verbatim>\<open>sep in s\<close> and \<^verbatim>\<open>s.split(sep)\<close> for a non-empty separator string.\<close>

fun contains :: "string \<Rightarrow> string \<Rightarrow> bool" where
  "contains sep [] = (sep = [])"
| "contains sep (c # cs) = (take (length sep) (c # cs) = sep \<or> contains sep cs)"

function split_str :: "string \<Rightarrow> string \<Rightarrow> string list" where
  "split_str sep s =
     (if s = [] then [[]]
      else if sep \<noteq> [] \<and> take (length sep) s = sep
           then [] # split_str sep (drop (length sep) s)
      else (case split_str sep (tl s) of
              [] \<Rightarrow> [[hd s]]
            | f # fs \<Rightarrow> (hd s # f) # fs))"
  by pat_completeness auto
termination
  by (relation "measure (\<lambda>(sep, s). length s)") auto

declare split_str.simps [simp del]

text \<open>The decimal value of a string of digits, most significant digit first.\<close>

definition digit_val :: "char \<Rightarrow> int" where
  "digit_val c =
     (case map_of (zip ''0123456789'' [0, 1, 2, 3, 4, 5, 6, 7, 8, 9]) c of
        None \<Rightarrow> 0
      | Some d \<Rightarrow> d)"

definition digits_value :: "string \<Rightarrow> int" where
  "digits_value ds = foldl (\<lambda>a c. 10 * a + digit_val c) 0 ds"

text \<open>
  \<^verbatim>\<open>int(s)\<close> for a string. The whitespace \<^verbatim>\<open>int\<close> skips at both ends is the space, the
  characters 0x09 to 0x0D, and the whitespace above 127 (U+0085, U+00A0), but not the
  separators 0x1C to 0x1F that \<^verbatim>\<open>str.strip\<close> removes. One sign is allowed, and the decimal
  digits may be grouped by single underscores.
\<close>

definition int_isspace :: "char \<Rightarrow> bool" where
  "int_isspace c = (c \<in> set [CHR 0x09, CHR 0x0A, CHR 0x0B, CHR 0x0C, CHR 0x0D, CHR 0x20,
                               CHR 0x85, CHR 0xA0])"

definition int_strip :: "string \<Rightarrow> string" where
  "int_strip s = rev (dropWhile int_isspace (rev (dropWhile int_isspace s)))"

fun digit_groups :: "string \<Rightarrow> bool" where
  "digit_groups [] = False"
| "digit_groups [c] = isdecimal c"
| "digit_groups (c # d # cs) =
     (isdecimal c \<and> (if d = CHR ''_'' then digit_groups cs else digit_groups (d # cs)))"

definition int_of_str :: "string \<Rightarrow> error + int" where
  "int_of_str s =
     (let t = int_strip s;
          negative = (t \<noteq> [] \<and> hd t = CHR ''-'');
          body = (if t \<noteq> [] \<and> (hd t = CHR ''-'' \<or> hd t = CHR ''+'') then tl t else t)
      in if digit_groups body
         then Inr ((if negative then - 1 else 1) * digits_value (replace_char body CHR ''_''))
         else Inl ValueError)"

text \<open>
  Rounding of a rational to binary64, to the nearest value and to the even one of two
  nearest, as \<^verbatim>\<open>float\<close> rounds a decimal literal. A positive \<open>r\<close> lies in the binade
  \<open>2 ^ floor_log2 r \<le> r < 2 ^ (floor_log2 r + 1)\<close>; its 53-bit significand is counted in units
  of \<open>2 ^ e\<close>, where \<open>e\<close> is no less than the exponent -1074 of the subnormal numbers; a
  result of \<open>2 ^ 1024\<close> or more is infinity.
\<close>

function bit_length :: "int \<Rightarrow> int" where
  "bit_length n = (if n \<le> 0 then 0 else 1 + bit_length (n div 2))"
  by pat_completeness auto
termination
  by (relation "measure (\<lambda>n. nat n)") auto

declare bit_length.simps [simp del]

definition pow2 :: "int \<Rightarrow> rat" where
  "pow2 e = (if 0 \<le> e then 2 ^ nat e else 1 / 2 ^ nat (- e))"

definition floor_log2 :: "rat \<Rightarrow> int" where
  "floor_log2 r =
     (case quotient_of r of
        (p, q) \<Rightarrow>
          (let k = bit_length p - bit_length q
           in if pow2 k \<le> r then k else k - 1))"

definition round_half_even :: "rat \<Rightarrow> int" where
  "round_half_even x =
     (let f = \<lfloor>x\<rfloor>; d = x - of_int f
      in if d < 1 / 2 then f
         else if 1 / 2 < d then f + 1
         else if even f then f else f + 1)"

definition binary64_magnitude :: "rat \<Rightarrow> rat option" where
  "binary64_magnitude r =
     (if r = 0 then Some 0
      else (let e = max (floor_log2 r - 52) (- 1074);
                v = of_int (round_half_even (r / pow2 e)) * pow2 e
            in if pow2 1024 \<le> v then None else Some v))"

definition binary64 :: "rat \<Rightarrow> pyfloat" where
  "binary64 r =
     (if 0 \<le> r
      then (case binary64_magnitude r of None \<Rightarrow> PosInf | Some v \<Rightarrow> Finite v)
      else (case binary64_magnitude (- r) of None \<Rightarrow> NegInf | Some v \<Rightarrow> Finite (- v)))"

text \<open>
  \<^verbatim>\<open>float(s)\<close> on the strings \<^verbatim>\<open>clean_number\<close> builds: characters that \<^verbatim>\<open>str.isdigit\<close>
  accepts, with at most one point. Such a string is a float literal exactly when it has a
  digit and all its digits are decimal. The other literal forms of Python (sign, exponent,
  inf, nan, surrounding whitespace) never reach this call.
\<close>

definition float_of_str :: "string \<Rightarrow> error + pyfloat" where
  "float_of_str s =
     (let whole = takeWhile (\<lambda>c. c \<noteq> CHR ''.'') s;
          frac = drop 1 (dropWhile (\<lambda>c. c \<noteq> CHR ''.'') s)
      in if whole @ frac \<noteq> [] \<and> list_all isdecimal (whole @ frac)
         then Inr (binary64 (of_int (digits_value (whole @ frac)) / 10 ^ length frac))
         else Inl ValueError)"

text \<open>
  \<^verbatim>\<open>int(x)\<close> of a number: a finite float is truncated towards zero, an infinity raises
  OverflowError and not-a-number raises ValueError.
\<close>

definition int_of_number :: "number \<Rightarrow> error + int" where
  "int_of_number n =
     (case n of
        IntNum i \<Rightarrow> Inr i
      | FloatNum (Finite r) \<Rightarrow> Inr (if 0 \<le> r then \<lfloor>r\<rfloor> else \<lceil>r\<rceil>)
      | FloatNum PosInf \<Rightarrow> Inl OverflowError
      | FloatNum NegInf \<Rightarrow> Inl OverflowError
      | FloatNum NaN \<Rightarrow> Inl ValueError)"

definition py_int :: "pyval \<Rightarrow> error + int" where
  "py_int v =
     (case v of
        Num n \<Rightarrow> int_of_number n
      | Str s \<Rightarrow> int_of_str s
      | StrList l \<Rightarrow> Inl TypeError
      | NoneVal \<Rightarrow> Inl TypeError)"

text \<open>\<^verbatim>\<open>len(v)\<close> and \<^verbatim>\<open>v[:n]\<close>: defined on strings and lists, a TypeError otherwise.\<close>

definition py_len :: "pyval \<Rightarrow> error + int" where
  "py_len v =
     (case v of
        Str s \<Rightarrow> Inr (int (length s))
      | StrList l \<Rightarrow> Inr (int (length l))
      | Num n \<Rightarrow> Inl TypeError
      | NoneVal \<Rightarrow> Inl TypeError)"

definition slice_stop :: "nat \<Rightarrow> int \<Rightarrow> nat" where
  "slice_stop len n = nat (if n < 0 then int len + n else n)"

definition py_slice_to :: "pyval \<Rightarrow> int \<Rightarrow> error + pyval" where
  "py_slice_to v n =
     (case v of
        Str s \<Rightarrow> Inr (Str (take (slice_stop (length s) n) s))
      | StrList l \<Rightarrow> Inr (StrList (take (slice_stop (length l) n) l))
      | Num x \<Rightarrow> Inl TypeError
      | NoneVal \<Rightarrow> Inl TypeError)"

section \<open>BaseInterpreter.clean_number\<close>

text \<open>
  The loop over the characters, with the state \<open>(number_list, number_type)\<close>:
  the first point is kept and switches the type to float, digits are kept, everything
  else is dropped.
\<close>

fun clean_number_loop :: "string \<Rightarrow> string \<times> string \<Rightarrow> string \<times> string" where
  "clean_number_loop [] st = st"
| "clean_number_loop (character # cs) (number_list, number_type) =
     (if character = CHR ''.'' \<and> number_type = ''int''
      then clean_number_loop cs (number_list @ [character], ''float'')
      else if isdigit character
      then clean_number_loop cs (number_list @ [character], number_type)
      else clean_number_loop cs (number_list, number_type))"

definition clean_number :: "string \<Rightarrow> error + number option" where
  "clean_number number =
     (case clean_number_loop number ([], ''int'') of
        (joined_number, number_type) \<Rightarrow>
          if joined_number = [] then Inr None
          else if number_type = ''int''
          then (case int_of_str joined_number of
                  Inl e \<Rightarrow> Inl e
                | Inr i \<Rightarrow> Inr (Some (IntNum i)))
          else if number_type = ''float''
          then (case float_of_str joined_number of
                  Inl e \<Rightarrow> Inl e
                | Inr r \<Rightarrow> Inr (Some (FloatNum r)))
          else Inr None)"

section \<open>Interpreters: from a line of text to an instruction\<close>

text \<open>\<^verbatim>\<open>_purge\<close>: every purge character is removed from the line, one after the other.\<close>

definition purge :: "string \<Rightarrow> string \<Rightarrow> string" where
  "purge line purge_characters = foldl replace_char line purge_characters"

definition remove_parenthesis :: "string \<Rightarrow> string" where
  "remove_parenthesis line =
     (let cleaned_line = strip line;
          cleaned_line = (if CHR ''('' \<in> set cleaned_line \<and> hd cleaned_line = CHR ''(''
                          then tl cleaned_line else cleaned_line)
      in if CHR '')'' \<in> set cleaned_line \<and> last cleaned_line = CHR '')''
         then butlast cleaned_line else cleaned_line)"

text \<open>
  \<^verbatim>\<open>_remove_quotes\<close> reads \<^verbatim>\<open>cleaned_text[0]\<close> with no check: an empty stripped text
  raises IndexError. The quote character is purged from \<open>text\<close>, not from the stripped
  text.
\<close>

definition remove_quotes :: "string \<Rightarrow> error + string" where
  "remove_quotes text =
     (let cleaned_text = strip text
      in case cleaned_text of
           [] \<Rightarrow> Inl IndexError
         | first_character # rest \<Rightarrow>
             if first_character = CHR 0x22 \<or> first_character = CHR 0x27
             then Inr (purge text [first_character])
             else Inr cleaned_text)"

definition new_command :: "instruction \<Rightarrow> string \<Rightarrow> bool \<Rightarrow> error + instruction" where
  "new_command new_line line multiple =
     (let line = remove_parenthesis line;
          command_contents = split_char CHR '','' line
      in case command_contents of
           [] \<Rightarrow> Inl IndexError
         | command_action # attributes \<Rightarrow>
             (case remove_quotes command_action of
                Inl e \<Rightarrow> Inl e
              | Inr command_action \<Rightarrow>
                  (let new_line =
                         new_line @ [if multiple then StrList (split_str '' + '' command_action)
                                     else Str command_action]
                   in if length command_contents > 1
                      then (case clean_number (command_contents ! 1) of
                              Inl e \<Rightarrow> Inl e
                            | Inr None \<Rightarrow> Inr new_line
                            | Inr (Some command_attribute) \<Rightarrow>
                                Inr (new_line @ [Num command_attribute]))
                      else Inr new_line)))"

definition PrintInterpreter_interpret :: "string \<Rightarrow> error + instruction option" where
  "PrintInterpreter_interpret line =
     (case new_command [Str ''print''] (strip (drop 5 line)) False of
        Inl e \<Rightarrow> Inl e
      | Inr new_line \<Rightarrow> Inr (Some new_line))"

definition PressInterpreter_interpret :: "string \<Rightarrow> error + instruction option" where
  "PressInterpreter_interpret line =
     (case new_command [Str ''press''] (strip (drop 5 line)) (contains '' + '' line) of
        Inl e \<Rightarrow> Inl e
      | Inr new_line \<Rightarrow> Inr (Some new_line))"

definition PauseInterpreter_interpret :: "string \<Rightarrow> error + instruction option" where
  "PauseInterpreter_interpret line =
     (let cleaned_line = strip (remove_parenthesis (strip (drop 5 line)))
      in if cleaned_line = [] then Inr (Some [Str ''pause'', Num (IntNum 1)])
         else (case clean_number cleaned_line of
                 Inl e \<Rightarrow> Inl e
               | Inr None \<Rightarrow> Inr (Some [Str ''pause'', NoneVal])
               | Inr (Some pause_length) \<Rightarrow> Inr (Some [Str ''pause'', Num pause_length])))"

definition InputInterpreter_interpret :: "string \<Rightarrow> error + instruction option" where
  "InputInterpreter_interpret line =
     (case new_command [Str ''input''] (strip (drop 5 line)) False of
        Inl e \<Rightarrow> Inl e
      | Inr new_line \<Rightarrow> Inr (Some new_line))"

datatype interpreter =
    PrintInterpreter string
  | PressInterpreter string
  | PauseInterpreter string
  | InputInterpreter string
  | CommentsInterpreter string
  | EmptyLineInterpreter string

text \<open>The pair \<open>(line_start, first_character)\<close> that \<^verbatim>\<open>_set_line_characteristics\<close> stores.\<close>

definition set_line_characteristics :: "string \<Rightarrow> string \<times> string" where
  "set_line_characteristics line =
     (let lower_case_line = strip (lower line)
      in if length lower_case_line > 5
         then (take 5 lower_case_line, take 1 lower_case_line)
         else ([], []))"

definition InterpreterFactory :: "string \<Rightarrow> interpreter" where
  "InterpreterFactory line =
     (case set_line_characteristics line of
        (line_start, first_character) \<Rightarrow>
          if line_start = ''print'' then PrintInterpreter line
          else if line_start = ''press'' then PressInterpreter line
          else if line_start = ''pause'' then PauseInterpreter line
          else if line_start = ''input'' then InputInterpreter line
          else if first_character = ''#'' then CommentsInterpreter line
          else EmptyLineInterpreter line)"

fun interpreter_interpret :: "interpreter \<Rightarrow> error + instruction option" where
  "interpreter_interpret (PrintInterpreter line) = PrintInterpreter_interpret line"
| "interpreter_interpret (PressInterpreter line) = PressInterpreter_interpret line"
| "interpreter_interpret (PauseInterpreter line) = PauseInterpreter_interpret line"
| "interpreter_interpret (InputInterpreter line) = InputInterpreter_interpret line"
| "interpreter_interpret (CommentsInterpreter line) = Inr None"
| "interpreter_interpret (EmptyLineInterpreter line) = Inr None"

text \<open>\<^verbatim>\<open>ProcedureFromText._interpret_text\<close>: one entry per line, the first exception aborts.\<close>

fun interpret_lines :: "string list \<Rightarrow> instruction option list \<Rightarrow> error + instruction option list" where
  "interpret_lines [] processed_list = Inr processed_list"
| "interpret_lines (line # lines) processed_list =
     (case interpreter_interpret (InterpreterFactory line) of
        Inl e \<Rightarrow> Inl e
      | Inr interpreted_line \<Rightarrow> interpret_lines lines (processed_list @ [interpreted_line]))"

definition ProcedureFromText_return_procedure :: "string \<Rightarrow> error + instruction option list" where
  "ProcedureFromText_return_procedure procedure_text =
     interpret_lines (split_char CHR 0x0A procedure_text) []"

section \<open>DataFromList: from a table to the data set\<close>

text \<open>A checked subscript \<^verbatim>\<open>xs[i]\<close> for \<open>i \<ge> 0\<close>.\<close>

definition subscript :: "'a list \<Rightarrow> nat \<Rightarrow> error + 'a" where
  "subscript xs i = (if i < length xs then Inr (xs ! i) else Inl IndexError)"

text \<open>The loop over \<^verbatim>\<open>range(1, self.width)\<close> that fills \<open>temp_dict\<close>.\<close>

fun read_columns :: "string list \<Rightarrow> string list \<Rightarrow> nat list \<Rightarrow> data_record \<Rightarrow> error + data_record" where
  "read_columns headers row_values [] temp_dict = Inr temp_dict"
| "read_columns headers row_values (column # columns) temp_dict =
     (case subscript headers column of
        Inl e \<Rightarrow> Inl e
      | Inr header \<Rightarrow>
          (case subscript row_values column of
             Inl e \<Rightarrow> Inl e
           | Inr v \<Rightarrow> read_columns headers row_values columns (AList.update header v temp_dict)))"

definition read_all_column_values_except_the_keys ::
  "string list list \<Rightarrow> string list \<Rightarrow> nat \<Rightarrow> data_set \<Rightarrow> nat \<Rightarrow> error + data_set" where
  "read_all_column_values_except_the_keys data_list headers width data_dictionary row =
     (case subscript data_list row of
        Inl e \<Rightarrow> Inl e
      | Inr row_values \<Rightarrow>
          (case subscript row_values 0 of
             Inl e \<Rightarrow> Inl e
           | Inr key \<Rightarrow>
               (case read_columns headers row_values [1..<width] [] of
                  Inl e \<Rightarrow> Inl e
                | Inr temp_dict \<Rightarrow> Inr (AList.update key temp_dict data_dictionary))))"

fun read_all_table_rows_except_headers ::
  "string list list \<Rightarrow> string list \<Rightarrow> nat \<Rightarrow> nat list \<Rightarrow> data_set \<Rightarrow> error + data_set" where
  "read_all_table_rows_except_headers data_list headers width [] data_dictionary =
     Inr data_dictionary"
| "read_all_table_rows_except_headers data_list headers width (row # rows) data_dictionary =
     (case read_all_column_values_except_the_keys data_list headers width data_dictionary row of
        Inl e \<Rightarrow> Inl e
      | Inr data_dictionary \<Rightarrow>
          read_all_table_rows_except_headers data_list headers width rows data_dictionary)"

text \<open>
  The constructor reads \<^verbatim>\<open>len(self.data_list[0])\<close>, so an empty table raises IndexError;
  \<^verbatim>\<open>_set_headers\<close> copies the whole first row.
\<close>

definition DataFromList_return_data_set :: "string list list \<Rightarrow> error + data_set" where
  "DataFromList_return_data_set data_list =
     (case subscript data_list 0 of
        Inl e \<Rightarrow> Inl e
      | Inr first_row \<Rightarrow>
          (let height = length data_list;
               width = length first_row;
               headers = map (\<lambda>header. first_row ! header) [0..<width]
           in read_all_table_rows_except_headers data_list headers width [1..<height] []))"

section \<open>Commands\<close>

text \<open>
  What pyautogui and \<^verbatim>\<open>sleep\<close> are asked to do, in the order of the calls:
  \<^verbatim>\<open>typewrite(v)\<close>, \<^verbatim>\<open>press(k)\<close>, \<^verbatim>\<open>hotkey(k1, ..., kn)\<close> and \<^verbatim>\<open>sleep(1)\<close>.
\<close>

datatype event = Typewrite pyval | PressKey pyval | Hotkey "string list" | Sleep

text \<open>
  The result of executing a command: the calls issued, and the exception that ended the
  execution if one was raised.
\<close>

datatype outcome = Done "event list" | Raised "event list" error

text \<open>The fields of \<^verbatim>\<open>TypeField\<close> that its methods write and \<^verbatim>\<open>execute\<close> reads.\<close>

record type_field =
  has_tab :: bool
  value_to_print :: pyval
  instruction_length :: "int option"

definition TypeField_init :: type_field where
  "TypeField_init = \<lparr>has_tab = False, value_to_print = Str [], instruction_length = Some 0\<rparr>"

definition set_field :: "type_field \<Rightarrow> pyval \<Rightarrow> int option \<Rightarrow> error + type_field" where
  "set_field self v len =
     (case len of
        None \<Rightarrow> Inr (self\<lparr>value_to_print := v\<rparr>)
      | Some n \<Rightarrow>
          (case py_len v of
             Inl e \<Rightarrow> Inl e
           | Inr l \<Rightarrow>
               if l < n then Inr (self\<lparr>value_to_print := v, has_tab := True\<rparr>)
               else if l > n
               then (case py_slice_to v n of
                       Inl e \<Rightarrow> Inl e
                     | Inr sliced \<Rightarrow> Inr (self\<lparr>value_to_print := sliced\<rparr>))
               else Inr (self\<lparr>value_to_print := v\<rparr>)))"

definition set_length :: "type_field \<Rightarrow> instruction \<Rightarrow> error + type_field" where
  "set_length self instruction =
     (if length instruction = 3
      then (case py_int (instruction ! 2) of
              Inl e \<Rightarrow> Inl e
            | Inr n \<Rightarrow> Inr (self\<lparr>instruction_length := Some n\<rparr>))
      else Inr (self\<lparr>instruction_length := None\<rparr>))"

definition print_value :: "type_field \<Rightarrow> event list" where
  "print_value self = [Typewrite (value_to_print self)]"

definition add_tab :: "type_field \<Rightarrow> event list" where
  "add_tab self = (if has_tab self then [PressKey (Str ''tab'')] else [])"

text \<open>
  The command objects. Each keeps the fields its \<^verbatim>\<open>execute\<close> reads: the type field of
  a print or input command, the pause length, the keys and the number of presses.
\<close>

datatype command =
    PrintCommand type_field
  | InputCommand type_field
  | PauseCommand int
  | PressCommand pyval int
  | UnknownCommand

definition PrintCommand_init :: "instruction \<Rightarrow> data_record option \<Rightarrow> error + command" where
  "PrintCommand_init instruction data =
     (case subscript instruction 1 of
        Inl e \<Rightarrow> Inl e
      | Inr input_value_to_print \<Rightarrow>
          (case set_length TypeField_init instruction of
             Inl e \<Rightarrow> Inl e
           | Inr self \<Rightarrow>
               (case set_field self input_value_to_print (instruction_length self) of
                  Inl e \<Rightarrow> Inl e
                | Inr self \<Rightarrow> Inr (PrintCommand self))))"

text \<open>
  \<^verbatim>\<open>self.data_set.get(instruction[1])\<close>: None for a key the record does not have, and a
  TypeError for a list, which is not hashable.
\<close>

definition dict_get :: "data_record \<Rightarrow> pyval \<Rightarrow> error + pyval" where
  "dict_get d k =
     (case k of
        Str s \<Rightarrow> (case map_of d s of None \<Rightarrow> Inr NoneVal | Some v \<Rightarrow> Inr (Str v))
      | StrList l \<Rightarrow> Inl TypeError
      | Num n \<Rightarrow> Inr NoneVal
      | NoneVal \<Rightarrow> Inr NoneVal)"

definition InputCommand_init :: "instruction \<Rightarrow> data_record \<Rightarrow> error + command" where
  "InputCommand_init instruction data =
     (case subscript instruction 1 of
        Inl e \<Rightarrow> Inl e
      | Inr field \<Rightarrow>
          (case dict_get data field of
             Inl e \<Rightarrow> Inl e
           | Inr input_value_to_print \<Rightarrow>
               (case set_length TypeField_init instruction of
                  Inl e \<Rightarrow> Inl e
                | Inr self \<Rightarrow>
                    (case set_field self input_value_to_print (instruction_length self) of
                       Inl e \<Rightarrow> Inl e
                     | Inr self \<Rightarrow> Inr (InputCommand self)))))"

definition PauseCommand_init :: "instruction \<Rightarrow> data_record option \<Rightarrow> error + command" where
  "PauseCommand_init instruction data =
     (if length instruction = 1 then Inr (PauseCommand 1)
      else (case subscript instruction 1 of
              Inl e \<Rightarrow> Inl e
            | Inr v \<Rightarrow>
                (case py_int v of
                   Inl e \<Rightarrow> Inl e
                 | Inr pause_length \<Rightarrow> Inr (PauseCommand pause_length))))"

definition PressCommand_init :: "instruction \<Rightarrow> data_record option \<Rightarrow> error + command" where
  "PressCommand_init instruction data =
     (case subscript instruction 1 of
        Inl e \<Rightarrow> Inl e
      | Inr keys \<Rightarrow>
          if length instruction = 3
          then (case py_int (instruction ! 2) of
                  Inl e \<Rightarrow> Inl e
                | Inr presses \<Rightarrow> Inr (PressCommand keys presses))
          else Inr (PressCommand keys 1))"

definition CommandFactory :: "instruction \<Rightarrow> data_record option \<Rightarrow> error + command" where
  "CommandFactory instruction_list data =
     (case subscript instruction_list 0 of
        Inl e \<Rightarrow> Inl e
      | Inr keyword \<Rightarrow>
          if keyword = Str ''input'' \<and> data \<noteq> None
          then InputCommand_init instruction_list (the data)
          else if keyword = Str ''press'' then PressCommand_init instruction_list data
          else if keyword = Str ''print'' then PrintCommand_init instruction_list data
          else if keyword = Str ''pause'' then PauseCommand_init instruction_list data
          else Inr UnknownCommand)"

text \<open>
  The arguments of one \<^verbatim>\<open>hotkey\<close> call: the subscripts \<^verbatim>\<open>self.keys[i]\<close> are evaluated
  from left to right, and the first one out of range raises IndexError.
\<close>

fun subscripts :: "'a list \<Rightarrow> nat list \<Rightarrow> error + 'a list" where
  "subscripts xs [] = Inr []"
| "subscripts xs (i # indices) =
     (case subscript xs i of
        Inl e \<Rightarrow> Inl e
      | Inr x \<Rightarrow>
          (case subscripts xs indices of
             Inl e \<Rightarrow> Inl e
           | Inr rest \<Rightarrow> Inr (x # rest)))"

definition hotkey :: "string list \<Rightarrow> nat list \<Rightarrow> error + event list" where
  "hotkey keys indices =
     (case subscripts keys indices of
        Inl e \<Rightarrow> Inl e
      | Inr arguments \<Rightarrow> Inr [Hotkey arguments])"

text \<open>The body of the loop of \<^verbatim>\<open>PressCommand.execute\<close>, as the source has it.\<close>

definition press_once :: "pyval \<Rightarrow> error + event list" where
  "press_once keys =
     (case keys of
        StrList ks \<Rightarrow>
          if length ks = 2 then hotkey ks [0, 1]
          else if length ks = 3 then hotkey ks [0, 1, 2]
          else if length ks = 4 then hotkey ks [0, 1, 2, 4]
          else if length ks = 5 then hotkey ks [0, 1, 2, 3, 4]
          else Inr []
      | Str s \<Rightarrow> Inr [PressKey keys]
      | Num n \<Rightarrow> Inr [PressKey keys]
      | NoneVal \<Rightarrow> Inr [PressKey keys])"

fun press_loop :: "nat \<Rightarrow> pyval \<Rightarrow> event list \<Rightarrow> outcome" where
  "press_loop 0 keys issued = Done issued"
| "press_loop (Suc presses) keys issued =
     (case press_once keys of
        Inl e \<Rightarrow> Raised issued e
      | Inr events \<Rightarrow> press_loop presses keys (issued @ events))"

fun execute :: "command \<Rightarrow> outcome" where
  "execute (PrintCommand self) = Done (print_value self @ add_tab self)"
| "execute (InputCommand self) = Done (print_value self @ add_tab self)"
| "execute (PauseCommand pause_length) = Done (replicate (nat pause_length) Sleep)"
| "execute (PressCommand keys presses) = press_loop (nat presses) keys []"
| "execute UnknownCommand = Done []"

section \<open>ProcedureBuilder\<close>





section \<open>The accumulation of the numeric extractor, in the words of the specification\<close>

text \<open>
  The specification describes what the extractor keeps of a string: its digits, and the
  first point, at its place; every later point and every other character is dropped.
  This definition follows that description and is compared with the loop of the code.
\<close>

definition spec_accumulation :: "string \<Rightarrow> string" where
  "spec_accumulation s =
     filter isdigit (takeWhile (\<lambda>c. c \<noteq> CHR ''.'') s) @
     (case dropWhile (\<lambda>c. c \<noteq> CHR ''.'') s of
        [] \<Rightarrow> []
      | point # rest \<Rightarrow> point # filter isdigit rest)"

section \<open>The instructions and records a procedure set is built from\<close>



section \<open>The data set of a table, row by row\<close>

text \<open>
  The record \<^verbatim>\<open>_read_all_column_values_except_the_keys\<close> builds for one row, and the
  dictionary the loop over the rows builds, as folds of the dict assignments in the order
  the code performs them.
\<close>

definition row_record :: "string list \<Rightarrow> string list \<Rightarrow> data_record" where
  "row_record headers row_values =
     fold (\<lambda>column. AList.update (headers ! column) (row_values ! column))
          [1..<length headers] []"

definition table_records :: "string list \<Rightarrow> string list list \<Rightarrow> data_set" where
  "table_records headers rows =
     fold (\<lambda>row_values. AList.update (row_values ! 0) (row_record headers row_values)) rows []"

section \<open>Properties\<close>

subsection \<open>Width and tab resolution\<close>

lemma set_field_text:
  "set_field self (Str t) len =
     Inr (case len of
            None \<Rightarrow> self\<lparr>value_to_print := Str t\<rparr>
          | Some w \<Rightarrow>
              if int (length t) < w then self\<lparr>value_to_print := Str t, has_tab := True\<rparr>
              else if w < int (length t)
              then self\<lparr>value_to_print := Str (take (slice_stop (length t) w) t)\<rparr>
              else self\<lparr>value_to_print := Str t\<rparr>)"
  by (simp add: set_field_def py_len_def py_slice_to_def split: option.split)

text \<open>
  A negative width, which no line of text yields but a procedure given as a list may
  hold, makes the slice \<^verbatim>\<open>value[:length]\<close> drop the last characters.
\<close>

lemma set_field_negative_width:
  "w < 0 \<Longrightarrow>
   set_field self (Str t) (Some w) =
     Inr (self\<lparr>value_to_print := Str (take (length t - nat (- w)) t)\<rparr>)"
proof -
  assume w: "w < 0"
  have "slice_stop (length t) w = length t - nat (- w)"
    using w by (simp add: slice_stop_def)
  then show ?thesis using w by (simp add: set_field_text)
qed

text \<open>
  Claim C1, as stated, fails for a negative width: the instruction
  \<^verbatim>\<open>['print', 'hello', -2]\<close> resolves to a command that types \<^verbatim>\<open>hel\<close>, the text without
  its last two characters, and not the first \<open>min(len(t), w)\<close> characters, of which
  there are none.
\<close>

theorem width_tab_negative_width_counterexample:
  "CommandFactory [Str ''print'', Str ''hello'', Num (IntNum (- 2))] None =
     Inr (PrintCommand
            \<lparr>has_tab = False, value_to_print = Str ''hel'', instruction_length = Some (- 2)\<rparr>) \<and>
   execute (PrintCommand
              \<lparr>has_tab = False, value_to_print = Str ''hel'', instruction_length = Some (- 2)\<rparr>) =
     Done [Typewrite (Str ''hel'')] \<and>
   ''hel'' \<noteq> take (nat (min (int (length ''hello'')) (- 2))) ''hello''"
  by code_simp

text \<open>
  Claim C1, amended. For a text \<open>t\<close> in a type field whose tab flag is still unset, as the
  constructors of the print and input commands leave it: with no width the command types
  \<open>t\<close> and no tab; with a width \<open>w\<close> above the length of \<open>t\<close> it types \<open>t\<close> and then
  presses tab; with a width \<open>0 \<le> w \<le> len(t)\<close> it types the first \<open>min(len(t), w)\<close>
  characters of \<open>t\<close> and no tab; with a width \<open>w < 0\<close> it types \<open>t\<close> without its last
  \<open>- w\<close> characters, nothing if \<open>t\<close> is no longer than that, and no tab. Print and input
  commands execute alike.
\<close>

theorem width_tab_resolution:
  "has_tab self = False \<Longrightarrow>
     (\<exists>self'. set_field self (Str t) None = Inr self' \<and>
        execute (PrintCommand self') = Done [Typewrite (Str t)] \<and>
        execute (InputCommand self') = Done [Typewrite (Str t)]) \<and>
     (int (length t) < w \<longrightarrow>
        (\<exists>self'. set_field self (Str t) (Some w) = Inr self' \<and>
           execute (PrintCommand self') = Done [Typewrite (Str t), PressKey (Str ''tab'')] \<and>
           execute (InputCommand self') = Done [Typewrite (Str t), PressKey (Str ''tab'')])) \<and>
     (0 \<le> w \<and> w \<le> int (length t) \<longrightarrow>
        (\<exists>self'. set_field self (Str t) (Some w) = Inr self' \<and>
           execute (PrintCommand self') =
             Done [Typewrite (Str (take (nat (min (int (length t)) w)) t))] \<and>
           execute (InputCommand self') =
             Done [Typewrite (Str (take (nat (min (int (length t)) w)) t))])) \<and>
     (w < 0 \<longrightarrow>
        (\<exists>self'. set_field self (Str t) (Some w) = Inr self' \<and>
           execute (PrintCommand self') =
             Done [Typewrite (Str (take (length t - nat (- w)) t))] \<and>
           execute (InputCommand self') =
             Done [Typewrite (Str (take (length t - nat (- w)) t))]))"
proof -
  assume h: "has_tab self = False"
  have a: "\<exists>self'. set_field self (Str t) None = Inr self' \<and>
        execute (PrintCommand self') = Done [Typewrite (Str t)] \<and>
        execute (InputCommand self') = Done [Typewrite (Str t)]"
    using h by (simp add: set_field_text print_value_def add_tab_def)
  have b: "int (length t) < w \<longrightarrow>
        (\<exists>self'. set_field self (Str t) (Some w) = Inr self' \<and>
           execute (PrintCommand self') = Done [Typewrite (Str t), PressKey (Str ''tab'')] \<and>
           execute (InputCommand self') = Done [Typewrite (Str t), PressKey (Str ''tab'')])"
    by (simp add: set_field_text print_value_def add_tab_def)
  have c: "0 \<le> w \<and> w \<le> int (length t) \<longrightarrow>
        (\<exists>self'. set_field self (Str t) (Some w) = Inr self' \<and>
           execute (PrintCommand self') =
             Done [Typewrite (Str (take (nat (min (int (length t)) w)) t))] \<and>
           execute (InputCommand self') =
             Done [Typewrite (Str (take (nat (min (int (length t)) w)) t))])"
    using h by (auto simp add: set_field_text print_value_def add_tab_def slice_stop_def min_def)
  have d: "w < 0 \<longrightarrow>
        (\<exists>self'. set_field self (Str t) (Some w) = Inr self' \<and>
           execute (PrintCommand self') =
             Done [Typewrite (Str (take (length t - nat (- w)) t))] \<and>
           execute (InputCommand self') =
             Done [Typewrite (Str (take (length t - nat (- w)) t))])"
    using h by (simp add: set_field_negative_width print_value_def add_tab_def)
  from a b c d show ?thesis by blast
qed

theorem width_tab_resolution_witness:
  "has_tab TypeField_init = False \<and>
   int (length ''hello'') < 8 \<and>
   set_field TypeField_init (Str ''hello'') (Some 8) =
     Inr (TypeField_init\<lparr>value_to_print := Str ''hello'', has_tab := True\<rparr>) \<and>
   0 \<le> (3::int) \<and> 3 \<le> int (length ''hello'') \<and>
   set_field TypeField_init (Str ''hello'') (Some 3) =
     Inr (TypeField_init\<lparr>value_to_print := Str ''hel''\<rparr>) \<and>
   (- 2 :: int) < 0 \<and>
   set_field TypeField_init (Str ''hello'') (Some (- 2)) =
     Inr (TypeField_init\<lparr>value_to_print := Str ''hel''\<rparr>)"
  using width_tab_resolution [of TypeField_init "''hello''" 8]
    width_tab_resolution [of TypeField_init "''hello''" 3]
    width_tab_resolution [of TypeField_init "''hello''" "- 2"]
  by (simp add: TypeField_init_def set_field_def py_len_def py_slice_to_def slice_stop_def)

subsection \<open>Key chords\<close>

lemma press_loop_ok:
  "press_once keys = Inr events \<Longrightarrow>
   press_loop n keys issued = Done (issued @ concat (replicate n events))"
  by (induction n arbitrary: issued) auto

lemma press_loop_raises:
  "press_once keys = Inl e \<Longrightarrow> 0 < n \<Longrightarrow> press_loop n keys issued = Raised issued e"
  by (cases n) auto

lemma press_once_chord:
  "length ks \<in> {2, 3, 5} \<Longrightarrow> press_once (StrList ks) = Inr [Hotkey ks]"
  apply (cases ks; simp add: press_once_def hotkey_def subscript_def)
  subgoal for a ks1
    apply (cases ks1; simp)
    subgoal for b ks2
      apply (cases ks2; simp)
      subgoal for c ks3
        apply (cases ks3; simp)
        subgoal for d ks4
          by (cases ks4; simp)
        done
      done
    done
  done

lemma press_once_four: "length ks = 4 \<Longrightarrow> press_once (StrList ks) = Inl IndexError"
  by (simp add: press_once_def hotkey_def subscript_def)

lemma execute_chord:
  "length ks \<in> {2, 3, 5} \<Longrightarrow>
   execute (PressCommand (StrList ks) n) = Done (replicate (nat n) (Hotkey ks))"
  using press_loop_ok [OF press_once_chord, of ks "nat n" "[]"]
  by (simp add: concat_replicate_single)

lemma execute_four:
  "length ks = 4 \<Longrightarrow> 0 < n \<Longrightarrow> execute (PressCommand (StrList ks) n) = Raised [] IndexError"
  using press_loop_raises [OF press_once_four, of ks "nat n" "[]"] by simp

text \<open>
  Claim C2. The claim asks that a chord of 2 to 5 keys is issued with every subscript in
  bounds. The branch for four keys reads \<^verbatim>\<open>self.keys[4]\<close>: the line
  \<^verbatim>\<open>press ctrl + alt + shift + esc\<close> parses to a four-key chord, resolves to a press
  command with one press, and its execution raises IndexError before any key is issued.
\<close>

theorem press_four_keys_raises:
  "interpreter_interpret (InterpreterFactory ''press ctrl + alt + shift + esc'') =
     Inr (Some [Str ''press'', StrList [''ctrl'', ''alt'', ''shift'', ''esc'']]) \<and>
   CommandFactory [Str ''press'', StrList [''ctrl'', ''alt'', ''shift'', ''esc'']] None =
     Inr (PressCommand (StrList [''ctrl'', ''alt'', ''shift'', ''esc'']) 1) \<and>
   execute (PressCommand (StrList [''ctrl'', ''alt'', ''shift'', ''esc'']) 1) =
     Raised [] IndexError"
  by code_simp

subsection \<open>The numeric extractor\<close>

lemma point_not_digit: "\<not> isdigit CHR ''.''"
  by (simp add: isdigit_def isdecimal_def)


lemma clean_number_loop_float:
  "clean_number_loop s (acc, ''float'') = (acc @ filter isdigit s, ''float'')"
  by (induction s arbitrary: acc) (auto simp add: point_not_digit)

lemma clean_number_loop_int:
  "clean_number_loop s (acc, ''int'') =
     (acc @ spec_accumulation s, if CHR ''.'' \<in> set s then ''float'' else ''int'')"
  by (induction s arbitrary: acc)
     (auto simp add: spec_accumulation_def clean_number_loop_float point_not_digit)


lemma spec_accumulation_no_point:
  "CHR ''.'' \<notin> set s \<Longrightarrow> spec_accumulation s = filter isdigit s"
  by (induction s) (auto simp add: spec_accumulation_def)












text \<open>A string with neither a digit nor a point yields None.\<close>

lemma clean_number_no_digit_no_point:
  "\<forall>c\<in>set s. \<not> isdigit c \<and> c \<noteq> CHR ''.'' \<Longrightarrow> clean_number s = Inr None"
proof -
  assume a: "\<forall>c\<in>set s. \<not> isdigit c \<and> c \<noteq> CHR ''.''"
  then have "CHR ''.'' \<notin> set s" by blast
  moreover have "filter isdigit s = []" using a by (simp add: filter_empty_conv)
  ultimately show ?thesis
    by (simp add: clean_number_def clean_number_loop_int spec_accumulation_no_point)
qed

text \<open>
  Claim C4. The claim asks that a string without digits yields None without an error.
  A string whose only kept character is a point reaches \<^verbatim>\<open>float('.')\<close>, which raises
  ValueError; the line \<^verbatim>\<open>print Hello, world.\<close> does so through its attribute part.
\<close>

theorem clean_number_point_raises:
  "clean_number ''.'' = Inl ValueError \<and>
   interpreter_interpret (InterpreterFactory ''print Hello, world.'') = Inl ValueError"
  by code_simp

subsection \<open>Classification of lines\<close>

lemma factory_cases:
  "InterpreterFactory line =
     (let l = strip (lower line)
      in if 5 < length l \<and> take 5 l = ''print'' then PrintInterpreter line
         else if 5 < length l \<and> take 5 l = ''press'' then PressInterpreter line
         else if 5 < length l \<and> take 5 l = ''pause'' then PauseInterpreter line
         else if 5 < length l \<and> take 5 l = ''input'' then InputInterpreter line
         else if 5 < length l \<and> take 1 l = ''#'' then CommentsInterpreter line
         else EmptyLineInterpreter line)"
  by (simp add: InterpreterFactory_def set_line_characteristics_def Let_def)

text \<open>
  Claim C5. A keyword matches only when the stripped, lower-cased line is longer than
  5 characters and its first 5 characters are the keyword: \<^verbatim>\<open>print\<close> goes to the
  interpreter of empty lines, \<^verbatim>\<open>printx\<close> to the print interpreter, in any letter case.
\<close>

theorem classifier_boundary:
  "InterpreterFactory ''print'' = EmptyLineInterpreter ''print'' \<and>
   InterpreterFactory ''printx'' = PrintInterpreter ''printx'' \<and>
   InterpreterFactory ''PrInTx'' = PrintInterpreter ''PrInTx'' \<and>
   (length (strip (lower line)) \<le> 5 \<longrightarrow> InterpreterFactory line = EmptyLineInterpreter line) \<and>
   (InterpreterFactory line = PrintInterpreter line \<longleftrightarrow>
      5 < length (strip (lower line)) \<and> take 5 (strip (lower line)) = ''print'') \<and>
   (InterpreterFactory line = PressInterpreter line \<longleftrightarrow>
      5 < length (strip (lower line)) \<and> take 5 (strip (lower line)) = ''press'') \<and>
   (InterpreterFactory line = PauseInterpreter line \<longleftrightarrow>
      5 < length (strip (lower line)) \<and> take 5 (strip (lower line)) = ''pause'') \<and>
   (InterpreterFactory line = InputInterpreter line \<longleftrightarrow>
      5 < length (strip (lower line)) \<and> take 5 (strip (lower line)) = ''input'')"
proof -
  have e1: "InterpreterFactory ''print'' = EmptyLineInterpreter ''print''" by code_simp
  have e2: "InterpreterFactory ''printx'' = PrintInterpreter ''printx''" by code_simp
  have e3: "InterpreterFactory ''PrInTx'' = PrintInterpreter ''PrInTx''" by code_simp
  have g: "length (strip (lower line)) \<le> 5 \<longrightarrow> InterpreterFactory line = EmptyLineInterpreter line"
    by (simp add: factory_cases Let_def)
  have p1: "InterpreterFactory line = PrintInterpreter line \<longleftrightarrow>
      5 < length (strip (lower line)) \<and> take 5 (strip (lower line)) = ''print''"
    by (simp add: factory_cases Let_def)
  have p2: "InterpreterFactory line = PressInterpreter line \<longleftrightarrow>
      5 < length (strip (lower line)) \<and> take 5 (strip (lower line)) = ''press''"
    by (auto simp add: factory_cases Let_def)
  have p3: "InterpreterFactory line = PauseInterpreter line \<longleftrightarrow>
      5 < length (strip (lower line)) \<and> take 5 (strip (lower line)) = ''pause''"
    by (auto simp add: factory_cases Let_def)
  have p4: "InterpreterFactory line = InputInterpreter line \<longleftrightarrow>
      5 < length (strip (lower line)) \<and> take 5 (strip (lower line)) = ''input''"
    by (auto simp add: factory_cases Let_def)
  from e1 e2 e3 g p1 p2 p3 p4 show ?thesis by blast
qed

theorem classifier_boundary_witness:
  "length (strip (lower ''  Pause '')) \<le> 5 \<and>
   InterpreterFactory ''  Pause '' = EmptyLineInterpreter ''  Pause ''"
proof -
  have h: "length (strip (lower ''  Pause '')) \<le> 5" by code_simp
  from classifier_boundary [of "''  Pause ''"] h show ?thesis by blast
qed

subsection \<open>Parsing of lines\<close>

text \<open>
  Claim C7. The claim asks that no line makes classification and parsing raise.
  \<^verbatim>\<open>_remove_quotes\<close> reads the first character of the stripped action with no check,
  so the line \<^verbatim>\<open>print ,5\<close>, whose action is empty, raises IndexError, and the exception
  aborts the conversion of the whole procedure text.
\<close>

theorem empty_action_raises:
  "interpreter_interpret (InterpreterFactory ''print ,5'') = Inl IndexError \<and>
   ProcedureFromText_return_procedure ''print hello\<newline>print ,5'' = Inl IndexError"
  by code_simp

subsection \<open>Resolution of commands\<close>

text \<open>
  Claim C8. The claim asks that an input instruction whose field is missing from the
  record resolves without an error, with or without a width. With a width,
  \<^verbatim>\<open>_set_field\<close> takes \<^verbatim>\<open>len(None)\<close>: the line \<^verbatim>\<open>input age, 5\<close> resolved against the
  record \<^verbatim>\<open>{'name': 'Alice'}\<close> raises TypeError.
\<close>

theorem input_missing_field_with_width_raises:
  "interpreter_interpret (InterpreterFactory ''input age, 5'') =
     Inr (Some [Str ''input'', Str ''age'', Num (IntNum 5)]) \<and>
   CommandFactory [Str ''input'', Str ''age'', Num (IntNum 5)] (Some [(''name'', ''Alice'')]) =
     Inl TypeError"
  by code_simp

text \<open>Without a width the constructor returns, and the value to type is None.\<close>

lemma input_missing_field_no_width:
  "map_of data f = None \<Longrightarrow>
   CommandFactory [Str ''input'', Str f] (Some data) =
     Inr (InputCommand \<lparr>has_tab = False, value_to_print = NoneVal, instruction_length = None\<rparr>)"
  by (simp add: CommandFactory_def subscript_def InputCommand_init_def dict_get_def
      set_length_def set_field_def TypeField_init_def)

lemma new_command_head:
  "new_command new_line line multiple = Inr result \<Longrightarrow>
   \<exists>rest. result = new_line @ rest"
  by (auto simp add: new_command_def Let_def split: list.splits sum.splits option.splits if_splits)

lemma CommandFactory_input_no_data:
  "CommandFactory (Str ''input'' # rest) None = Inr UnknownCommand"
  by (simp add: CommandFactory_def subscript_def)

text \<open>
  Claim C10. With no data set, every instruction the input interpreter returns is
  resolved to the unknown command, whose execution issues nothing and raises nothing.
\<close>

theorem input_without_data_is_noop:
  "InputInterpreter_interpret line = Inr (Some instruction) \<Longrightarrow>
     CommandFactory instruction None = Inr UnknownCommand \<and> execute UnknownCommand = Done []"
proof -
  assume a: "InputInterpreter_interpret line = Inr (Some instruction)"
  then have "new_command [Str ''input''] (strip (drop 5 line)) False = Inr instruction"
    by (simp add: InputInterpreter_interpret_def split: sum.splits)
  then obtain rest where "instruction = [Str ''input''] @ rest"
    using new_command_head by blast
  then show ?thesis
    by (simp add: CommandFactory_input_no_data)
qed

theorem input_without_data_is_noop_witness:
  "InterpreterFactory ''input name, 10'' = InputInterpreter ''input name, 10'' \<and>
   InputInterpreter_interpret ''input name, 10'' =
     Inr (Some [Str ''input'', Str ''name'', Num (IntNum 10)]) \<and>
   CommandFactory [Str ''input'', Str ''name'', Num (IntNum 10)] None = Inr UnknownCommand \<and>
   execute UnknownCommand = Done []"
proof -
  have h: "InputInterpreter_interpret ''input name, 10'' =
     Inr (Some [Str ''input'', Str ''name'', Num (IntNum 10)])"
    by code_simp
  have f: "InterpreterFactory ''input name, 10'' = InputInterpreter ''input name, 10''"
    by code_simp
  from input_without_data_is_noop [OF h] f h show ?thesis by simp
qed

subsection \<open>Expansion over the data set\<close>
















subsection \<open>The data table loader\<close>

lemma fold_update_absent:
  "\<forall>c\<in>set cs. f c \<noteq> k \<Longrightarrow>
   map_of (fold (\<lambda>c. AList.update (f c) (g c)) cs al) k = map_of al k"
  by (induction cs arbitrary: al) (auto simp add: update_conv')

lemma fold_update_last:
  "f j = k \<Longrightarrow> \<forall>c\<in>set cs2. f c \<noteq> k \<Longrightarrow>
   map_of (fold (\<lambda>c. AList.update (f c) (g c)) (cs1 @ j # cs2) al) k = Some (g j)"
  by (simp add: fold_update_absent update_conv')

lemma update_key_set: "fst ` set (AList.update k v al) = insert k (fst ` set al)"
  by (induction al) auto

lemma fold_update_keys:
  "fst ` set (fold (\<lambda>c. AList.update (f c) (g c)) cs al) = fst ` set al \<union> f ` set cs"
  by (induction cs arbitrary: al) (simp_all add: update_key_set)

lemma fold_update_distinct:
  "distinct (map fst al) \<Longrightarrow> distinct (map fst (fold (\<lambda>c. AList.update (f c) (g c)) cs al))"
  by (induction cs arbitrary: al) (simp_all add: distinct_update)

lemma read_columns_fold:
  "\<forall>c\<in>set columns. c < length headers \<and> c < length row_values \<Longrightarrow>
   read_columns headers row_values columns temp_dict =
     Inr (fold (\<lambda>column. AList.update (headers ! column) (row_values ! column)) columns temp_dict)"
  by (induction columns arbitrary: temp_dict) (simp_all add: subscript_def)

lemma read_row:
  assumes "row < length data_list" "length (data_list ! row) = length headers" "headers \<noteq> []"
  shows "read_all_column_values_except_the_keys data_list headers (length headers)
           data_dictionary row =
         Inr (AList.update (data_list ! row ! 0) (row_record headers (data_list ! row))
                data_dictionary)"
proof -
  have c: "\<forall>c\<in>set [Suc 0..<length headers]. c < length headers \<and> c < length (data_list ! row)"
    using assms(2) by simp
  have z: "0 < length (data_list ! row)" using assms(2,3) by simp
  show ?thesis
    using assms(1) z
    by (simp add: read_all_column_values_except_the_keys_def subscript_def
        read_columns_fold [OF c] row_record_def)
qed

lemma read_rows:
  "\<forall>row\<in>set indices. row < length data_list \<and> length (data_list ! row) = length headers \<Longrightarrow>
   headers \<noteq> [] \<Longrightarrow>
   read_all_table_rows_except_headers data_list headers (length headers) indices data_dictionary =
     Inr (fold (\<lambda>row. AList.update (data_list ! row ! 0) (row_record headers (data_list ! row)))
            indices data_dictionary)"
  by (induction indices arbitrary: data_dictionary) (simp_all add: read_row)

lemma rows_of_indices: "map (\<lambda>row. (h # rows) ! row) [1..<Suc (length rows)] = rows"
  by (rule nth_equalityI) (simp_all add: nth_upt del: upt_Suc)

lemma return_data_set_table:
  assumes "headers \<noteq> []" "\<forall>row_values\<in>set rows. length row_values = length headers"
  shows "DataFromList_return_data_set (headers # rows) = Inr (table_records headers rows)"
proof -
  let ?dl = "headers # rows"
  have h: "map (\<lambda>header. headers ! header) [0..<length headers] = headers"
    by (simp add: map_nth)
  have pre: "\<forall>row\<in>set [1..<length ?dl]. row < length ?dl \<and> length (?dl ! row) = length headers"
    using assms(2) by (auto simp add: nth_Cons split: nat.splits)
  have "fold (\<lambda>row. AList.update (?dl ! row ! 0) (row_record headers (?dl ! row)))
          [1..<length ?dl] [] =
        fold (\<lambda>row_values. AList.update (row_values ! 0) (row_record headers row_values))
          (map (\<lambda>row. ?dl ! row) [1..<length ?dl]) []"
    by (simp add: fold_map comp_def)
  also have "map (\<lambda>row. ?dl ! row) [1..<length ?dl] = rows"
    using rows_of_indices [of headers rows] by simp
  finally have f: "fold (\<lambda>row. AList.update (?dl ! row ! 0) (row_record headers (?dl ! row)))
          [1..<length ?dl] [] = table_records headers rows"
    by (simp add: table_records_def)
  show ?thesis
    unfolding DataFromList_return_data_set_def
    using read_rows [OF pre assms(1), of "[]"] f
    by (simp add: subscript_def h Let_def)
qed

lemma tl_as_map: "map (\<lambda>column. headers ! column) [1..<length headers] = tl headers"
  by (rule nth_equalityI) (simp_all add: nth_tl)

lemma tl_as_image: "(\<lambda>column. headers ! column) ` set [1..<length headers] = set (tl headers)"
  using arg_cong [OF tl_as_map [of headers], of set] by (simp only: set_map)

lemma row_record_column:
  assumes "1 \<le> j" "j < length headers" "\<forall>j'<length headers. j < j' \<longrightarrow> headers ! j' \<noteq> headers ! j"
  shows "map_of (row_record headers row_values) (headers ! j) = Some (row_values ! j)"
proof -
  have split: "[1..<length headers] = [1..<j] @ j # [Suc j..<length headers]"
  proof -
    have "[1..<j + (length headers - j)] = [1..<j] @ [j..<j + (length headers - j)]"
      using assms(1) by (rule upt_add_eq_append)
    moreover have "j + (length headers - j) = length headers" using assms(2) by simp
    moreover have "[j..<length headers] = j # [Suc j..<length headers]"
      using assms(2) by (rule upt_conv_Cons)
    ultimately show ?thesis by simp
  qed
  have later: "\<forall>c\<in>set [Suc j..<length headers]. headers ! c \<noteq> headers ! j"
    using assms(3) by simp
  show ?thesis
    unfolding row_record_def split
    by (rule fold_update_last [OF refl later])
qed

lemma table_records_row:
  assumes "i < length rows" "\<forall>i'<length rows. i < i' \<longrightarrow> rows ! i' ! 0 \<noteq> rows ! i ! 0"
  shows "map_of (table_records headers rows) (rows ! i ! 0) =
           Some (row_record headers (rows ! i))"
proof -
  have split: "rows = take i rows @ rows ! i # drop (Suc i) rows"
    using assms(1) by (rule id_take_nth_drop)
  have later: "\<forall>row_values\<in>set (drop (Suc i) rows). row_values ! 0 \<noteq> rows ! i ! 0"
  proof
    fix row_values assume "row_values \<in> set (drop (Suc i) rows)"
    then obtain n where n: "n < length (drop (Suc i) rows)" "row_values = drop (Suc i) rows ! n"
      by (auto simp add: in_set_conv_nth)
    then have "row_values = rows ! (Suc i + n)" "Suc i + n < length rows" by auto
    then show "row_values ! 0 \<noteq> rows ! i ! 0" using assms(2) by simp
  qed
  have "map_of (fold (\<lambda>row_values. AList.update (row_values ! 0) (row_record headers row_values))
                  (take i rows @ rows ! i # drop (Suc i) rows) [])
               (rows ! i ! 0) = Some (row_record headers (rows ! i))"
    by (rule fold_update_last [OF refl later])
  then show ?thesis
    unfolding table_records_def using split by simp
qed

text \<open>
  Claim C9, as stated, fails on a table in which two rows share their key: the record
  stored under the key is the one of the last such row, so the record for the row
  \<^verbatim>\<open>['1', 'Alice']\<close> maps \<^verbatim>\<open>name\<close> to \<^verbatim>\<open>Bob\<close>.
\<close>

theorem data_table_duplicate_key_counterexample:
  "DataFromList_return_data_set
     [[''id'', ''name''], [''1'', ''Alice''], [''1'', ''Bob'']] =
     Inr [(''1'', [(''name'', ''Bob'')])] \<and>
   map_of [(''1'', [(''name'', ''Bob'')])] ''1'' \<noteq> Some [(''name'', ''Alice'')]"
  by code_simp

text \<open>
  Claim C9, amended. For a header row with at least one column and rows of its arity,
  the loader returns a dict whose keys are the column-0 values of the rows. For each row
  that is the last one with its key, the record under that key has the headers of the
  columns 1 to N-1 as its keys, and maps the header of each column that is the last one
  with its header to the value of the row in that column. With distinct keys and distinct
  headers this is every row and every column from 1 on.
\<close>

theorem data_table_last_wins:
  assumes "headers \<noteq> []" "\<forall>row_values\<in>set rows. length row_values = length headers"
  shows "\<exists>data_dictionary.
     DataFromList_return_data_set (headers # rows) = Inr data_dictionary \<and>
     distinct (map fst data_dictionary) \<and>
     fst ` set data_dictionary = (\<lambda>row_values. row_values ! 0) ` set rows \<and>
     (\<forall>i<length rows.
        (\<forall>i'<length rows. i < i' \<longrightarrow> rows ! i' ! 0 \<noteq> rows ! i ! 0) \<longrightarrow>
        (\<exists>temp_dict.
           map_of data_dictionary (rows ! i ! 0) = Some temp_dict \<and>
           distinct (map fst temp_dict) \<and>
           fst ` set temp_dict = set (tl headers) \<and>
           (\<forall>j<length headers.
              1 \<le> j \<and> (\<forall>j'<length headers. j < j' \<longrightarrow> headers ! j' \<noteq> headers ! j) \<longrightarrow>
              map_of temp_dict (headers ! j) = Some (rows ! i ! j))))"
proof -
  let ?d = "table_records headers rows"
  have r: "DataFromList_return_data_set (headers # rows) = Inr ?d"
    by (rule return_data_set_table [OF assms])
  have d: "distinct (map fst ?d)"
    unfolding table_records_def by (rule fold_update_distinct) simp
  have k: "fst ` set ?d = (\<lambda>row_values. row_values ! 0) ` set rows"
    unfolding table_records_def by (simp add: fold_update_keys)
  have rd: "distinct (map fst (row_record headers row_values))" for row_values
    unfolding row_record_def by (rule fold_update_distinct) simp
  have rk: "fst ` set (row_record headers row_values) = set (tl headers)" for row_values
    unfolding row_record_def using tl_as_image [of headers] by (simp add: fold_update_keys)
  have rows_ok: "\<exists>temp_dict.
           map_of ?d (rows ! i ! 0) = Some temp_dict \<and>
           distinct (map fst temp_dict) \<and>
           fst ` set temp_dict = set (tl headers) \<and>
           (\<forall>j<length headers.
              1 \<le> j \<and> (\<forall>j'<length headers. j < j' \<longrightarrow> headers ! j' \<noteq> headers ! j) \<longrightarrow>
              map_of temp_dict (headers ! j) = Some (rows ! i ! j))"
    if i: "i < length rows" and last: "\<forall>i'<length rows. i < i' \<longrightarrow> rows ! i' ! 0 \<noteq> rows ! i ! 0"
    for i
  proof -
    have m: "map_of ?d (rows ! i ! 0) = Some (row_record headers (rows ! i))"
      by (rule table_records_row [OF i last])
    have c: "\<forall>j<length headers.
              1 \<le> j \<and> (\<forall>j'<length headers. j < j' \<longrightarrow> headers ! j' \<noteq> headers ! j) \<longrightarrow>
              map_of (row_record headers (rows ! i)) (headers ! j) = Some (rows ! i ! j)"
      using row_record_column by blast
    from m rd rk c show ?thesis by blast
  qed
  from r d k rows_ok show ?thesis by blast
qed

theorem data_table_last_wins_witness:
  "[''id'', ''name''] \<noteq> [] \<and>
   length [''1'', ''Alice''] = length [''id'', ''name''] \<and>
   map_of (the (map_of (projr (DataFromList_return_data_set
                                 [[''id'', ''name''], [''1'', ''Alice'']])) ''1'')) ''name'' =
     Some ''Alice''"
proof -
  let ?headers = "[''id'', ''name'']"
  let ?rows = "[[''1'', ''Alice'']]"
  have h: "?headers \<noteq> []" by simp
  have a: "\<forall>row_values\<in>set ?rows. length row_values = length ?headers" by simp
  obtain data_dictionary where
    r: "DataFromList_return_data_set (?headers # ?rows) = Inr data_dictionary" and
    o: "\<forall>i<length ?rows.
        (\<forall>i'<length ?rows. i < i' \<longrightarrow> ?rows ! i' ! 0 \<noteq> ?rows ! i ! 0) \<longrightarrow>
        (\<exists>temp_dict.
           map_of data_dictionary (?rows ! i ! 0) = Some temp_dict \<and>
           distinct (map fst temp_dict) \<and>
           fst ` set temp_dict = set (tl ?headers) \<and>
           (\<forall>j<length ?headers.
              1 \<le> j \<and> (\<forall>j'<length ?headers. j < j' \<longrightarrow> ?headers ! j' \<noteq> ?headers ! j) \<longrightarrow>
              map_of temp_dict (?headers ! j) = Some (?rows ! i ! j)))"
    using data_table_last_wins [OF h a] by blast
  have i0: "(0::nat) < length ?rows" by simp
  have last: "\<forall>i'<length ?rows. 0 < i' \<longrightarrow> ?rows ! i' ! 0 \<noteq> ?rows ! 0 ! 0" by simp
  obtain temp_dict where
    m: "map_of data_dictionary (?rows ! 0 ! 0) = Some temp_dict" and
    c: "\<forall>j<length ?headers.
              1 \<le> j \<and> (\<forall>j'<length ?headers. j < j' \<longrightarrow> ?headers ! j' \<noteq> ?headers ! j) \<longrightarrow>
              map_of temp_dict (?headers ! j) = Some (?rows ! 0 ! j)"
    using o i0 last by blast
  have j1: "(1::nat) < length ?headers" by simp
  have lastc: "(1::nat) \<le> 1 \<and> (\<forall>j'<length ?headers. 1 < j' \<longrightarrow> ?headers ! j' \<noteq> ?headers ! 1)"
    by (simp add: less_Suc_eq)
  have v: "map_of temp_dict (?headers ! 1) = Some (?rows ! 0 ! 1)"
    using c j1 lastc by blast
  have m': "map_of data_dictionary ''1'' = Some temp_dict" using m by simp
  have v': "map_of temp_dict ''name'' = Some ''Alice''" using v by simp
  show ?thesis
    unfolding r using m' v' by simp
qed

end
